theory Spec2Isabelle
  imports Complex_Main
begin

section \<open>Data model (types/index.ts, clients/github-client.ts)\<close>

text \<open>
  A JavaScript \<^verbatim>\<open>Date\<close> holds a time value: an integral number of milliseconds since the
  epoch, or NaN (an "Invalid Date", which \<^verbatim>\<open>new Date(s)\<close> yields for an unparsable string
  and which is a truthy object like every other Date).  Numbers that the scorer handles are
  integers, except for the day count of an Invalid Date, which is NaN.
\<close>

datatype Date = Date int | InvalidDate

datatype number = Num int | NaN

datatype FreshnessStatus = active | stale | abandoned | unknown

datatype MaintainerStatus = healthy | warning | critical

datatype LicenseStatus = approved | warning | unknown | deprecated

datatype RiskLevel = healthy | warning | critical | unknown

record Maintainer =
  name :: string
  email :: "string option"

record PackageMetadata =
  name :: string
  version :: string
  lastPublished :: "Date option"
  maintainers :: "Maintainer list"
  license :: "string option"
  repositoryUrl :: "string option"
  homepage :: "string option"
  description :: "string option"

record GitHubRepoHealth =
  lastCommitDate :: "Date option"
  contributorCount :: int
  openIssues :: int
  stars :: int
  isArchived :: bool

record FreshnessScore =
  score :: int
  lastUpdate :: "Date option"
  daysSinceUpdate :: "number option"
  status :: FreshnessStatus

record MaintainerScore =
  score :: int
  count :: int
  status :: MaintainerStatus

record LicenseScore =
  score :: int
  license :: "string option"
  status :: LicenseStatus

record HealthScore =
  overall :: int
  freshness :: FreshnessScore
  maintainerHealth :: MaintainerScore
  licenseHealth :: LicenseScore

subsection \<open>Risk level classification\<close>

fun getRiskLevel :: "int option \<Rightarrow> RiskLevel" where
  "getRiskLevel None = RiskLevel.unknown"
| "getRiskLevel (Some s) =
     (if s \<ge> 80 then RiskLevel.healthy
      else if s \<ge> 50 then RiskLevel.warning
      else RiskLevel.critical)"

section \<open>Binary64 arithmetic of the weighted sum\<close>

text \<open>
  The overall score is computed on JavaScript Numbers, that is IEEE 754 binary64 values with
  every product and sum rounded to nearest, ties to even.  A finite double is written here
  as a pair \<open>(m, e)\<close> of integers standing for \<open>m \<sqdot> 2\<^sup>e\<close>; an operation computes the exact
  result and \<open>normalise\<close> rounds its significand to 53 bits.  Exponent overflow and
  subnormal results are not modelled: the scorer's values lie between 1 and 100.
\<close>

type_synonym double = "int \<times> int"

definition valof :: "double \<Rightarrow> rat" where
  "valof d = of_int (fst d) * 2 powi (snd d)"

text \<open>The number of binary digits of a positive integer.\<close>

function bitlen :: "int \<Rightarrow> int" where
  "bitlen n = (if n \<le> 0 then 0 else 1 + bitlen (n div 2))"
  by pat_completeness auto
termination
  by (relation "measure nat") auto

declare bitlen.simps [simp del]

text \<open>\<open>m / 2\<^sup>k\<close> rounded to the nearest integer, a tie going to the even neighbour.\<close>

definition roundTiesToEven :: "int \<Rightarrow> nat \<Rightarrow> int" where
  "roundTiesToEven m k =
     (let q = m div 2 ^ k; r = m mod 2 ^ k in
      if 2 * r < 2 ^ k then q
      else if 2 ^ k < 2 * r then q + 1
      else if even q then q else q + 1)"

definition normalise :: "double \<Rightarrow> double" where
  "normalise d =
     (let k = bitlen \<bar>fst d\<bar> - 53 in
      if k \<le> 0 then d else (roundTiesToEven (fst d) (nat k), snd d + k))"

definition fmul :: "double \<Rightarrow> double \<Rightarrow> double" where
  "fmul a b = normalise (fst a * fst b, snd a + snd b)"

definition fadd :: "double \<Rightarrow> double \<Rightarrow> double" where
  "fadd a b =
     (let e = min (snd a) (snd b) in
      normalise (fst a * 2 ^ nat (snd a - e) + fst b * 2 ^ nat (snd b - e), e))"

text \<open>
  \<^verbatim>\<open>Math.round\<close>: the integer closest to the argument, a tie going towards \<open>+\<infinity>\<close>,
  that is \<open>\<lfloor>x + 1/2\<rfloor>\<close> computed exactly.
\<close>

definition Math_round :: "double \<Rightarrow> int" where
  "Math_round d =
     (if 0 \<le> snd d then fst d * 2 ^ nat (snd d)
      else (2 * fst d + 2 ^ nat (- snd d)) div 2 ^ (nat (- snd d) + 1))"

text \<open>An integer score as a Number (exact below \<open>2\<^sup>5\<^sup>3\<close>).\<close>

definition ofInt :: "int \<Rightarrow> double" where
  "ofInt n = (n, 0)"

text \<open>
  The literals \<^verbatim>\<open>0.40\<close> and \<^verbatim>\<open>0.30\<close> of \<^verbatim>\<open>WEIGHTS\<close> denote the doubles nearest to
  \<open>2/5\<close> and \<open>3/10\<close>: \<open>0x3FD999999999999A\<close> and \<open>0x3FD3333333333333\<close>.
\<close>

definition WEIGHTS_freshness :: double where
  "WEIGHTS_freshness = (7205759403792794, - 54)"

definition WEIGHTS_maintainers :: double where
  "WEIGHTS_maintainers = (5404319552844595, - 54)"

definition WEIGHTS_license :: double where
  "WEIGHTS_license = (5404319552844595, - 54)"

section \<open>The health scorer (analyzer)\<close>

subsection \<open>Freshness\<close>

text \<open>
  \<^verbatim>\<open>githubHealth?.lastCommitDate || metadata.lastPublished\<close>: an absent or null
  \<^verbatim>\<open>githubHealth\<close> and a null \<^verbatim>\<open>lastCommitDate\<close> are falsy, every Date object is truthy.
\<close>

definition resolveLastUpdate ::
  "PackageMetadata \<Rightarrow> GitHubRepoHealth option \<Rightarrow> Date option" where
  "resolveLastUpdate metadata githubHealth =
     (case githubHealth of
        None \<Rightarrow> lastPublished metadata
      | Some g \<Rightarrow> (case lastCommitDate g of
                    None \<Rightarrow> lastPublished metadata
                  | Some d \<Rightarrow> Some d))"

text \<open>
  \<^verbatim>\<open>Math.floor((now.getTime() - lastUpdate.getTime()) / (1000 * 60 * 60 * 24))\<close>, where
  \<open>now\<close> is the time value of \<^verbatim>\<open>new Date()\<close>.  Time values are integers of magnitude at
  most \<open>8.64 \<sqdot> 10\<^sup>1\<^sup>5\<close>; their difference is exact in binary64 while it stays below \<open>2\<^sup>5\<^sup>3\<close>,
  and the floor of the rounded quotient is then the floor of the exact one, which is
  integer division.  The time value of an Invalid Date is NaN, and so is the result.
\<close>

definition MS_PER_DAY :: int where
  "MS_PER_DAY = 1000 * 60 * 60 * 24"

fun daysSince :: "int \<Rightarrow> Date \<Rightarrow> number" where
  "daysSince now (Date t) = Num ((now - t) div MS_PER_DAY)"
| "daysSince now InvalidDate = NaN"

text \<open>\<^verbatim>\<open>x < k\<close> on Numbers: false when \<open>x\<close> is NaN.\<close>

fun lessNum :: "number \<Rightarrow> int \<Rightarrow> bool" where
  "lessNum (Num d) k = (d < k)"
| "lessNum NaN k = False"

text \<open>The chain of threshold tests that assigns \<^verbatim>\<open>score\<close> and \<^verbatim>\<open>status\<close>.\<close>

definition freshnessThresholds :: "number \<Rightarrow> int \<times> FreshnessStatus" where
  "freshnessThresholds days =
     (if lessNum days 180 then (100, active)
      else if lessNum days 365 then (75, active)
      else if lessNum days 730 then (40, stale)
      else if lessNum days 1095 then (20, abandoned)
      else (5, abandoned))"

text \<open>\<^verbatim>\<open>githubHealth?.isArchived\<close>\<close>

definition archived :: "GitHubRepoHealth option \<Rightarrow> bool" where
  "archived githubHealth = (case githubHealth of None \<Rightarrow> False | Some g \<Rightarrow> isArchived g)"

definition calculateFreshnessScore ::
  "int \<Rightarrow> PackageMetadata \<Rightarrow> GitHubRepoHealth option \<Rightarrow> FreshnessScore" where
  "calculateFreshnessScore now metadata githubHealth =
     (case resolveLastUpdate metadata githubHealth of
        None \<Rightarrow>
          \<lparr> FreshnessScore.score = 50, lastUpdate = None, daysSinceUpdate = None,
            status = FreshnessStatus.unknown \<rparr>
      | Some d \<Rightarrow>
          (let days = daysSince now d;
               (sc, st) = freshnessThresholds days;
               (sc, st) = (if archived githubHealth then (min sc 10, abandoned) else (sc, st))
           in \<lparr> FreshnessScore.score = sc, lastUpdate = Some d, daysSinceUpdate = Some days,
                status = st \<rparr>))"

subsection \<open>Maintainers\<close>

text \<open>
  \<^verbatim>\<open>githubHealth?.contributorCount || metadata.maintainers.length\<close>.  The contributor
  count is an integer (a parsed page number or an array length); \<open>0\<close> is falsy.
\<close>

definition resolveCount :: "PackageMetadata \<Rightarrow> GitHubRepoHealth option \<Rightarrow> int" where
  "resolveCount metadata githubHealth =
     (case githubHealth of
        None \<Rightarrow> int (length (maintainers metadata))
      | Some g \<Rightarrow> (if contributorCount g \<noteq> 0 then contributorCount g
                  else int (length (maintainers metadata))))"

definition calculateMaintainerScore ::
  "PackageMetadata \<Rightarrow> GitHubRepoHealth option \<Rightarrow> MaintainerScore" where
  "calculateMaintainerScore metadata githubHealth =
     (let c = resolveCount metadata githubHealth;
          (sc, st) = (if c \<ge> 5 then (100, MaintainerStatus.healthy)
                      else if c \<ge> 3 then (85, MaintainerStatus.healthy)
                      else if c = 2 then (70, MaintainerStatus.warning)
                      else if c = 1 then (40, MaintainerStatus.warning)
                      else (10, MaintainerStatus.critical))
      in \<lparr> MaintainerScore.score = sc, count = c, status = st \<rparr>)"

subsection \<open>License\<close>


definition toUpperChar :: "char \<Rightarrow> char" where
  "toUpperChar c =
     (case map_of (zip ''abcdefghijklmnopqrstuvwxyz'' ''ABCDEFGHIJKLMNOPQRSTUVWXYZ'') c of
        None \<Rightarrow> c
      | Some u \<Rightarrow> u)"

definition toUpperCase :: "string \<Rightarrow> string" where
  "toUpperCase s = map toUpperChar s"

definition isSpace :: "char \<Rightarrow> bool" where
  "isSpace c = (c \<in> set [CHR 0x09, CHR 0x0A, CHR 0x0B, CHR 0x0C, CHR 0x0D, CHR 0x20])"

text \<open>\<^verbatim>\<open>s.replace(/\s+/g, '-')\<close>: every maximal run of white space becomes one hyphen.\<close>

function replaceSpaces :: "string \<Rightarrow> string" where
  "replaceSpaces [] = []"
| "replaceSpaces (c # cs) =
     (if isSpace c then CHR ''-'' # replaceSpaces (dropWhile isSpace cs)
      else c # replaceSpaces cs)"
  by pat_completeness auto
termination
  by (relation "measure length") (auto simp: le_imp_less_Suc length_dropWhile_le)

definition normalizeLicense :: "string \<Rightarrow> string" where
  "normalizeLicense l = replaceSpaces (toUpperCase l)"

fun startsWith :: "string \<Rightarrow> string \<Rightarrow> bool" where
  "startsWith s [] = True"
| "startsWith [] (p # ps) = False"
| "startsWith (c # cs) (p # ps) = (c = p \<and> startsWith cs ps)"

text \<open>\<^verbatim>\<open>s.includes(t)\<close>: \<open>t\<close> occurs in \<open>s\<close> as a contiguous substring.\<close>

fun includesStr :: "string \<Rightarrow> string \<Rightarrow> bool" where
  "includesStr [] t = (t = [])"
| "includesStr (c # cs) t = (startsWith (c # cs) t \<or> includesStr cs t)"

definition OSI_APPROVED_LICENSES :: "string list" where
  "OSI_APPROVED_LICENSES =
     [''MIT'', ''Apache-2.0'', ''BSD-2-Clause'', ''BSD-3-Clause'', ''ISC'', ''MPL-2.0'',
      ''GPL-3.0'', ''GPL-3.0-only'', ''GPL-3.0-or-later'', ''LGPL-3.0'', ''LGPL-3.0-only'',
      ''LGPL-3.0-or-later'', ''AGPL-3.0'', ''Unlicense'', ''0BSD'', ''CC0-1.0'', ''Zlib'',
      ''Artistic-2.0'', ''EPL-2.0'', ''EUPL-1.2'']"

definition DEPRECATED_LICENSES :: "string list" where
  "DEPRECATED_LICENSES = [''GPL-2.0'', ''LGPL-2.0'', ''LGPL-2.1'', ''BSD-4-Clause'', ''WTFPL'']"

text \<open>
  The loop \<^verbatim>\<open>for (const t of set) if (normalized.includes(t.toUpperCase())) return \<dots>\<close>
  over a set in insertion order: does the loop return?
\<close>

fun matchesAny :: "string \<Rightarrow> string list \<Rightarrow> bool" where
  "matchesAny normalized [] = False"
| "matchesAny normalized (t # ts) =
     (if includesStr normalized (toUpperCase t) then True else matchesAny normalized ts)"

text \<open>\<^verbatim>\<open>!license\<close> holds of \<^verbatim>\<open>null\<close> and of the empty string.\<close>

definition calculateLicenseScore :: "PackageMetadata \<Rightarrow> LicenseScore" where
  "calculateLicenseScore metadata =
     (case PackageMetadata.license metadata of
        None \<Rightarrow>
          \<lparr> LicenseScore.score = 30, license = None, status = LicenseStatus.unknown \<rparr>
      | Some l \<Rightarrow>
          if l = [] then
            \<lparr> LicenseScore.score = 30, license = None, status = LicenseStatus.unknown \<rparr>
          else
            (let normalizedLicense = normalizeLicense l in
             if matchesAny normalizedLicense DEPRECATED_LICENSES then
               \<lparr> LicenseScore.score = 50, license = Some l, status = deprecated \<rparr>
             else if matchesAny normalizedLicense OSI_APPROVED_LICENSES then
               \<lparr> LicenseScore.score = 100, license = Some l, status = approved \<rparr>
             else
               \<lparr> LicenseScore.score = 60, license = Some l, status = LicenseStatus.warning \<rparr>))"

subsection \<open>Overall score\<close>

definition weightedSum :: "int \<Rightarrow> int \<Rightarrow> int \<Rightarrow> double" where
  "weightedSum f m l =
     fadd (fadd (fmul (ofInt f) WEIGHTS_freshness) (fmul (ofInt m) WEIGHTS_maintainers))
          (fmul (ofInt l) WEIGHTS_license)"

definition calculateHealthScore ::
  "int \<Rightarrow> PackageMetadata \<Rightarrow> GitHubRepoHealth option \<Rightarrow> HealthScore" where
  "calculateHealthScore now metadata githubHealth =
     (let fr = calculateFreshnessScore now metadata githubHealth;
          mh = calculateMaintainerScore metadata githubHealth;
          lh = calculateLicenseScore metadata
      in \<lparr> overall = Math_round (weightedSum (FreshnessScore.score fr)
                                    (MaintainerScore.score mh) (LicenseScore.score lh)),
           freshness = fr, maintainerHealth = mh, licenseHealth = lh \<rparr>)"

subsection \<open>The scorer at run time\<close>

text \<open>
  The type \<^verbatim>\<open>string | null\<close> of \<^verbatim>\<open>metadata.license\<close> is erased at run time, and the
  registry clients store \<^verbatim>\<open>data.license || null\<close> of the parsed response unchecked: the
  field holds whatever JSON value the registry sent, unless that value is falsy.
\<close>

datatype JsonValue =
    JsonNull
  | JsonBool bool
  | JsonNumber rat
  | JsonString string
  | JsonArray "JsonValue list"
  | JsonObject "(string \<times> JsonValue) list"

datatype JsError = TypeError

fun truthy :: "JsonValue \<Rightarrow> bool" where
  "truthy JsonNull = False"
| "truthy (JsonBool b) = b"
| "truthy (JsonNumber x) = (x \<noteq> 0)"
| "truthy (JsonString s) = (s \<noteq> [])"
| "truthy (JsonArray vs) = True"
| "truthy (JsonObject ps) = True"

text \<open>\<^verbatim>\<open>data.license || null\<close> (clients/npm-client.ts, clients/pypi-client.ts)\<close>

definition orNull :: "JsonValue \<Rightarrow> JsonValue" where
  "orNull v = (if truthy v then v else JsonNull)"

text \<open>
  \<^verbatim>\<open>license.toUpperCase()\<close>: only a string has the method; on any other value the property
  is undefined and the call raises a TypeError.
\<close>

fun callToUpperCase :: "JsonValue \<Rightarrow> JsError + string" where
  "callToUpperCase (JsonString s) = Inr (toUpperCase s)"
| "callToUpperCase v = Inl TypeError"

text \<open>The value as stored in the \<^verbatim>\<open>license\<close> field of the result; the typed reading.\<close>

fun asString :: "JsonValue \<Rightarrow> string option" where
  "asString (JsonString s) = Some s"
| "asString v = None"

fun typedLicense :: "string option \<Rightarrow> JsonValue" where
  "typedLicense None = JsonNull"
| "typedLicense (Some l) = JsonString l"

text \<open>
  \<^verbatim>\<open>calculateLicenseScore\<close> on the run-time value \<open>lic\<close> of \<^verbatim>\<open>metadata.license\<close>: \<open>Inl\<close> is a
  raised error.
\<close>

definition calculateLicenseScoreJs :: "JsonValue \<Rightarrow> JsError + LicenseScore" where
  "calculateLicenseScoreJs lic =
     (if \<not> truthy lic then
        Inr \<lparr> LicenseScore.score = 30, license = None, status = LicenseStatus.unknown \<rparr>
      else
        (case callToUpperCase lic of
           Inl e \<Rightarrow> Inl e
         | Inr upper \<Rightarrow>
             (let normalizedLicense = replaceSpaces upper in
              if matchesAny normalizedLicense DEPRECATED_LICENSES then
                Inr \<lparr> LicenseScore.score = 50, license = asString lic, status = deprecated \<rparr>
              else if matchesAny normalizedLicense OSI_APPROVED_LICENSES then
                Inr \<lparr> LicenseScore.score = 100, license = asString lic, status = approved \<rparr>
              else
                Inr \<lparr> LicenseScore.score = 60, license = asString lic,
                      status = LicenseStatus.warning \<rparr>)))"

text \<open>
  \<^verbatim>\<open>calculateHealthScore\<close> on a metadata object whose \<^verbatim>\<open>license\<close> field holds \<open>lic\<close> at run
  time; the other fields are read from \<open>metadata\<close> at their declared types.  The license
  score is computed last, so an error raised there is the error of the call.
\<close>

definition calculateHealthScoreJs ::
  "int \<Rightarrow> PackageMetadata \<Rightarrow> JsonValue \<Rightarrow> GitHubRepoHealth option \<Rightarrow> JsError + HealthScore" where
  "calculateHealthScoreJs now metadata lic githubHealth =
     (let fr = calculateFreshnessScore now metadata githubHealth;
          mh = calculateMaintainerScore metadata githubHealth
      in case calculateLicenseScoreJs lic of
           Inl e \<Rightarrow> Inl e
         | Inr lh \<Rightarrow>
             Inr \<lparr> overall = Math_round (weightedSum (FreshnessScore.score fr)
                                          (MaintainerScore.score mh) (LicenseScore.score lh)),
                   freshness = fr, maintainerHealth = mh, licenseHealth = lh \<rparr>)"

section \<open>The scan orchestrator (cli/index.ts)\<close>

datatype Source = npm | pypi | go

datatype DependencyType = direct | transitive

record Dependency =
  name :: string
  version :: string
  type :: DependencyType
  source :: Source
  isDev :: bool

record DependencyAnalysis =
  dependency :: Dependency
  metadata :: "PackageMetadata option"
  health :: "HealthScore option"
  error :: "string option"

record ScanSummary =
  total :: nat
  healthy :: nat
  warning :: nat
  critical :: nat
  failed :: nat

text \<open>
  The collaborators of \<^verbatim>\<open>runScan\<close>, as they answer in the \<open>i\<close>-th iteration of its loop:
  the registry clients return the metadata or throw an error with a message, the repository
  client returns the health signals or null and never throws, the clock gives the time of
  \<^verbatim>\<open>new Date()\<close>.
\<close>

record World =
  fetchNpmMetadata :: "nat \<Rightarrow> string \<Rightarrow> string + PackageMetadata"
  fetchPyPIMetadata :: "nat \<Rightarrow> string \<Rightarrow> string + PackageMetadata"
  fetchGitHubRepoHealth :: "nat \<Rightarrow> string \<Rightarrow> GitHubRepoHealth option"
  clock :: "nat \<Rightarrow> int"

text \<open>The \<^verbatim>\<open>try\<close> block of the loop body up to the metadata: \<open>Inl\<close> is a thrown message.\<close>

definition fetchMetadata :: "World \<Rightarrow> nat \<Rightarrow> Dependency \<Rightarrow> string + PackageMetadata" where
  "fetchMetadata w i dep =
     (case source dep of
        npm \<Rightarrow> fetchNpmMetadata w i (Dependency.name dep)
      | pypi \<Rightarrow> fetchPyPIMetadata w i (Dependency.name dep)
      | go \<Rightarrow> Inl ''Unsupported source: go'')"

text \<open>
  \<^verbatim>\<open>options.github !== false && metadata.repositoryUrl\<close> guards the repository fetch;
  \<open>github\<close> is that option (\<open>False\<close> under \<^verbatim>\<open>--no-github\<close>).
\<close>

definition fetchHealth ::
  "World \<Rightarrow> bool \<Rightarrow> nat \<Rightarrow> PackageMetadata \<Rightarrow> GitHubRepoHealth option" where
  "fetchHealth w github i md =
     (case repositoryUrl md of
        None \<Rightarrow> None
      | Some url \<Rightarrow> if github \<and> url \<noteq> [] then fetchGitHubRepoHealth w i url else None)"

definition analyseDependency :: "World \<Rightarrow> bool \<Rightarrow> nat \<Rightarrow> Dependency \<Rightarrow> DependencyAnalysis" where
  "analyseDependency w github i dep =
     (case fetchMetadata w i dep of
        Inr md \<Rightarrow>
          \<lparr> dependency = dep, metadata = Some md,
            health = Some (calculateHealthScore (clock w i) md (fetchHealth w github i md)),
            error = None \<rparr>
      | Inl message \<Rightarrow>
          \<lparr> dependency = dep, metadata = None, health = None, error = Some message \<rparr>)"

text \<open>The loop: \<open>analyses\<close> after the dependencies from index \<open>i\<close> on have been processed.\<close>

fun analyseFrom :: "World \<Rightarrow> bool \<Rightarrow> nat \<Rightarrow> Dependency list \<Rightarrow> DependencyAnalysis list" where
  "analyseFrom w github i [] = []"
| "analyseFrom w github i (dep # deps) =
     analyseDependency w github i dep # analyseFrom w github (Suc i) deps"

definition analyseAll :: "World \<Rightarrow> bool \<Rightarrow> Dependency list \<Rightarrow> DependencyAnalysis list" where
  "analyseAll w github deps = analyseFrom w github 0 deps"

text \<open>\<^verbatim>\<open>getRiskLevel(a.health?.overall ?? null)\<close>\<close>

definition riskOf :: "DependencyAnalysis \<Rightarrow> RiskLevel" where
  "riskOf a = getRiskLevel (map_option overall (health a))"

definition summarise :: "DependencyAnalysis list \<Rightarrow> ScanSummary" where
  "summarise analyses =
     \<lparr> total = length analyses,
       healthy = length (filter (\<lambda>a. riskOf a = RiskLevel.healthy) analyses),
       warning = length (filter (\<lambda>a. riskOf a = RiskLevel.warning) analyses),
       critical = length (filter (\<lambda>a. riskOf a = RiskLevel.critical) analyses),
       failed = length (filter (\<lambda>a. error a \<noteq> None) analyses) \<rparr>"

section \<open>Reference definitions and example inputs\<close>

text \<open>Rounding to the nearest integer with halves going up, in exact arithmetic.\<close>

definition roundHalfUp :: "rat \<Rightarrow> int" where
  "roundHalfUp x = \<lfloor>x + 1 / 2\<rfloor>"

text \<open>
  The license sub-score as the specification words it: 30/unknown for an absent license;
  for a present one, normalise, then deprecated (50) if some deprecated token is contained,
  else approved (100) if some approved token is contained, else warning (60).
\<close>

definition specLicenseScore :: "string option \<Rightarrow> int \<times> LicenseStatus" where
  "specLicenseScore lic =
     (case lic of
        None \<Rightarrow> (30, LicenseStatus.unknown)
      | Some l \<Rightarrow>
          (let n = normalizeLicense l in
           if list_ex (\<lambda>d. includesStr n (toUpperCase d)) DEPRECATED_LICENSES
             then (50, deprecated)
           else if list_ex (\<lambda>a. includesStr n (toUpperCase a)) OSI_APPROVED_LICENSES
             then (100, approved)
           else (60, LicenseStatus.warning)))"

text \<open>Registry metadata with the given last-publish date, maintainers and license.\<close>

definition exampleMetadata ::
  "Date option \<Rightarrow> Maintainer list \<Rightarrow> string option \<Rightarrow> PackageMetadata" where
  "exampleMetadata published ms lic =
     \<lparr> PackageMetadata.name = ''left-pad'', version = ''1.3.0'', lastPublished = published,
       maintainers = ms, license = lic, repositoryUrl = None, homepage = None,
       description = None \<rparr>"

definition alice :: Maintainer where
  "alice = \<lparr> Maintainer.name = ''alice'', email = None \<rparr>"

definition bob :: Maintainer where
  "bob = \<lparr> Maintainer.name = ''bob'', email = Some ''bob@example.org'' \<rparr>"

text \<open>Repository signals with the given last commit, contributor count and archived flag.\<close>

definition exampleRepo :: "Date option \<Rightarrow> int \<Rightarrow> bool \<Rightarrow> GitHubRepoHealth" where
  "exampleRepo commit contributors arch =
     \<lparr> lastCommitDate = commit, contributorCount = contributors, openIssues = 3, stars = 41,
       isArchived = arch \<rparr>"

text \<open>
  A well-formed health score, after the invariants of the data model: the overall score and
  the three sub-scores lie between 0 and 100, and the overall score is the weighted sum of
  the sub-scores rounded half up.
\<close>

definition wellFormed :: "HealthScore \<Rightarrow> bool" where
  "wellFormed h =
     (0 \<le> overall h \<and> overall h \<le> 100
      \<and> 0 \<le> FreshnessScore.score (freshness h) \<and> FreshnessScore.score (freshness h) \<le> 100
      \<and> 0 \<le> MaintainerScore.score (maintainerHealth h)
      \<and> MaintainerScore.score (maintainerHealth h) \<le> 100
      \<and> 0 \<le> LicenseScore.score (licenseHealth h) \<and> LicenseScore.score (licenseHealth h) \<le> 100
      \<and> overall h =
          roundHalfUp (2 / 5 * of_int (FreshnessScore.score (freshness h))
                       + 3 / 10 * of_int (MaintainerScore.score (maintainerHealth h))
                       + 3 / 10 * of_int (LicenseScore.score (licenseHealth h))))"

text \<open>
  The \<^verbatim>\<open>license\<close> field of a registry document in the legacy object form of package.json,
  \<^verbatim>\<open>{"type": "MIT", "url": "https://opensource.org/licenses/MIT"}\<close>.
\<close>

definition legacyLicense :: JsonValue where
  "legacyLicense =
     JsonObject [(''type'', JsonString ''MIT''),
                 (''url'', JsonString ''https://opensource.org/licenses/MIT'')]"

text \<open>A scan of two npm dependencies, of which the registry knows only the first.\<close>

definition exampleDependency :: "string \<Rightarrow> Dependency" where
  "exampleDependency n =
     \<lparr> Dependency.name = n, version = ''1.0.0'', type = direct, source = npm, isDev = False \<rparr>"

definition exampleWorld :: World where
  "exampleWorld =
     \<lparr> fetchNpmMetadata =
         (\<lambda>i n. if n = ''left-pad''
                then Inr (exampleMetadata (Some (Date 0)) [alice, bob] (Some ''MIT''))
                else Inl (''Package not found: '' @ n)),
       fetchPyPIMetadata = (\<lambda>i n. Inl (''Package not found: '' @ n)),
       fetchGitHubRepoHealth = (\<lambda>i url. None),
       clock = (\<lambda>i. 86400000 + 100 * int i) \<rparr>"

section \<open>The weighted sum is exact on the scores the scorer produces\<close>

text \<open>The weights are the doubles nearest to \<open>2/5\<close> and \<open>3/10\<close>, with 53-bit significands.\<close>

lemma WEIGHTS_nearest:
  "\<bar>2 / 5 - valof WEIGHTS_freshness\<bar> < 1 / 2 ^ 55"
  "\<bar>3 / 10 - valof WEIGHTS_maintainers\<bar> < 1 / 2 ^ 55"
  "\<bar>3 / 10 - valof WEIGHTS_license\<bar> < 1 / 2 ^ 55"
  "2 ^ 52 \<le> fst WEIGHTS_freshness \<and> fst WEIGHTS_freshness < 2 ^ 53"
  "2 ^ 52 \<le> fst WEIGHTS_maintainers \<and> fst WEIGHTS_maintainers < 2 ^ 53"
  "2 ^ 52 \<le> fst WEIGHTS_license \<and> fst WEIGHTS_license < 2 ^ 53"
  by (simp_all add: valof_def WEIGHTS_freshness_def WEIGHTS_maintainers_def WEIGHTS_license_def
      power_int_def power_divide power_one_over)

text \<open>
  Rounding returns a nearest multiple of \<open>2\<^sup>k\<close>, the even one at a tie, and \<open>bitlen\<close> is
  the position of the leading bit.
\<close>

lemma roundTiesToEven_nearest:
  "2 * \<bar>m - roundTiesToEven m k * 2 ^ k\<bar> \<le> 2 ^ k"
proof -
  define q r where "q = m div 2 ^ k" and "r = m mod 2 ^ k"
  have m: "m = q * 2 ^ k + r"
    by (simp only: q_def r_def div_mult_mod_eq)
  have r: "0 \<le> r" "r < 2 ^ k"
    by (simp_all add: r_def)
  have "roundTiesToEven m k = q \<and> 2 * r \<le> 2 ^ k \<or>
        roundTiesToEven m k = q + 1 \<and> 2 ^ k \<le> 2 * r"
    by (auto simp: roundTiesToEven_def Let_def q_def r_def)
  then show ?thesis
  proof
    assume "roundTiesToEven m k = q \<and> 2 * r \<le> 2 ^ k"
    then show ?thesis using m r by simp
  next
    assume a: "roundTiesToEven m k = q + 1 \<and> 2 ^ k \<le> 2 * r"
    then have "m - roundTiesToEven m k * 2 ^ k = r - 2 ^ k"
      using m by (simp add: algebra_simps)
    then show ?thesis using a r by simp
  qed
qed

lemma roundTiesToEven_tie:
  "2 * (m mod 2 ^ k) = 2 ^ k \<Longrightarrow> even (roundTiesToEven m k)"
  by (auto simp: roundTiesToEven_def Let_def)

lemma bitlen_nonneg: "0 \<le> bitlen n"
  by (induction n rule: bitlen.induct) (subst bitlen.simps, simp)

lemma bitlen_pos: "0 < n \<Longrightarrow> 0 < bitlen n"
  using bitlen_nonneg [of "n div 2"] by (subst bitlen.simps) simp

lemma bitlen_bounds:
  "0 < n \<Longrightarrow> 2 ^ nat (bitlen n - 1) \<le> n \<and> n < 2 ^ nat (bitlen n)"
proof (induction n rule: bitlen.induct)
  case (1 n)
  have step: "bitlen n = 1 + bitlen (n div 2)"
    using "1.prems" by (subst bitlen.simps) simp
  show ?case
  proof (cases "n = 1")
    case True
    then show ?thesis by (simp add: bitlen.simps)
  next
    case False
    with "1.prems" have h: "0 < n div 2" by simp
    with "1.IH" "1.prems" have lo: "2 ^ nat (bitlen (n div 2) - 1) \<le> n div 2"
      and hi: "n div 2 < 2 ^ nat (bitlen (n div 2))"
      by auto
    have pos: "0 < bitlen (n div 2)"
      using h by (rule bitlen_pos)
    have e1: "nat (bitlen n - 1) = Suc (nat (bitlen (n div 2) - 1))"
      using pos step by simp
    have e2: "nat (bitlen n) = Suc (nat (bitlen (n div 2)))"
      using pos step by simp
    have "2 * 2 ^ nat (bitlen (n div 2) - 1) \<le> n"
      using lo by linarith
    moreover have "n < 2 * 2 ^ nat (bitlen (n div 2))"
      using hi by linarith
    ultimately show ?thesis
      by (simp add: e1 e2)
  qed
qed

text \<open>A value whose significand fits in 53 bits is a double: rounding leaves it alone.\<close>

lemma normalise_exact:
  "\<bar>fst d\<bar> < 2 ^ 53 \<Longrightarrow> normalise d = d"
proof -
  assume a: "\<bar>fst d\<bar> < 2 ^ 53"
  have "bitlen \<bar>fst d\<bar> \<le> 53"
  proof (cases "0 < \<bar>fst d\<bar>")
    case True
    from bitlen_bounds [OF True] a
    have lt: "(2::int) ^ nat (bitlen \<bar>fst d\<bar> - 1) < 2 ^ 53"
      by linarith
    have "nat (bitlen \<bar>fst d\<bar> - 1) < 53"
      by (rule power_less_imp_less_exp [OF _ lt]) simp
    then show ?thesis by linarith
  next
    case False
    then show ?thesis by (simp add: bitlen.simps)
  qed
  then show ?thesis by (simp add: normalise_def)
qed

text \<open>
  So \<open>normalise\<close> rounds to nearest: it drops the bits beyond the 53rd, and the significand
  it returns is within half a unit of the exact one.
\<close>

lemma normalise_nearest:
  "snd (normalise d) = snd d + int (nat (bitlen \<bar>fst d\<bar> - 53)) \<and>
   2 * \<bar>fst d - fst (normalise d) * 2 ^ nat (bitlen \<bar>fst d\<bar> - 53)\<bar>
     \<le> 2 ^ nat (bitlen \<bar>fst d\<bar> - 53)"
  using roundTiesToEven_nearest [of "fst d" "nat (bitlen \<bar>fst d\<bar> - 53)"]
  by (simp add: normalise_def Let_def)

lemmas float_eval = roundTiesToEven_def normalise_def fmul_def ofInt_def
  WEIGHTS_freshness_def WEIGHTS_maintainers_def WEIGHTS_license_def Let_def bitlen.simps

text \<open>The rounded products: each is the exact value (40, 30, 16, \<dots>, 25.5, \<dots>).\<close>

lemma fmul_freshness:
  "fmul (ofInt 100) WEIGHTS_freshness = (5629499534213120, - 47)"
  "fmul (ofInt 75) WEIGHTS_freshness = (8444249301319680, - 48)"
  "fmul (ofInt 40) WEIGHTS_freshness = (4503599627370496, - 48)"
  "fmul (ofInt 20) WEIGHTS_freshness = (4503599627370496, - 49)"
  "fmul (ofInt 5) WEIGHTS_freshness = (4503599627370496, - 51)"
  "fmul (ofInt 50) WEIGHTS_freshness = (5629499534213120, - 48)"
  "fmul (ofInt 10) WEIGHTS_freshness = (4503599627370496, - 50)"
  by (simp_all add: float_eval)

lemma fmul_maintainers:
  "fmul (ofInt 100) WEIGHTS_maintainers = (8444249301319680, - 48)"
  "fmul (ofInt 85) WEIGHTS_maintainers = (7177611906121728, - 48)"
  "fmul (ofInt 70) WEIGHTS_maintainers = (5910974510923776, - 48)"
  "fmul (ofInt 40) WEIGHTS_maintainers = (6755399441055744, - 49)"
  "fmul (ofInt 10) WEIGHTS_maintainers = (6755399441055744, - 51)"
  by (simp_all add: float_eval)

lemma fmul_license:
  "fmul (ofInt 30) WEIGHTS_license = (5066549580791808, - 49)"
  "fmul (ofInt 50) WEIGHTS_license = (8444249301319680, - 49)"
  "fmul (ofInt 100) WEIGHTS_license = (8444249301319680, - 48)"
  "fmul (ofInt 60) WEIGHTS_license = (5066549580791808, - 48)"
  by (simp_all add: float_eval)

lemmas sum_eval = roundTiesToEven_def normalise_def fadd_def Math_round_def Let_def bitlen.simps
  fmul_freshness fmul_maintainers fmul_license weightedSum_def

lemma overall_100:
  "m \<in> {100, 85, 70, 40, 10} \<Longrightarrow> l \<in> {30, 50, 100, 60} \<Longrightarrow>
   Math_round (weightedSum 100 m l) = (4 * 100 + 3 * m + 3 * l + 5) div 10"
  by (safe; simp add: sum_eval)

lemma overall_75:
  "m \<in> {100, 85, 70, 40, 10} \<Longrightarrow> l \<in> {30, 50, 100, 60} \<Longrightarrow>
   Math_round (weightedSum 75 m l) = (4 * 75 + 3 * m + 3 * l + 5) div 10"
  by (safe; simp add: sum_eval)

lemma overall_40:
  "m \<in> {100, 85, 70, 40, 10} \<Longrightarrow> l \<in> {30, 50, 100, 60} \<Longrightarrow>
   Math_round (weightedSum 40 m l) = (4 * 40 + 3 * m + 3 * l + 5) div 10"
  by (safe; simp add: sum_eval)

lemma overall_20:
  "m \<in> {100, 85, 70, 40, 10} \<Longrightarrow> l \<in> {30, 50, 100, 60} \<Longrightarrow>
   Math_round (weightedSum 20 m l) = (4 * 20 + 3 * m + 3 * l + 5) div 10"
  by (safe; simp add: sum_eval)

lemma overall_5:
  "m \<in> {100, 85, 70, 40, 10} \<Longrightarrow> l \<in> {30, 50, 100, 60} \<Longrightarrow>
   Math_round (weightedSum 5 m l) = (4 * 5 + 3 * m + 3 * l + 5) div 10"
  by (safe; simp add: sum_eval)

lemma overall_50:
  "m \<in> {100, 85, 70, 40, 10} \<Longrightarrow> l \<in> {30, 50, 100, 60} \<Longrightarrow>
   Math_round (weightedSum 50 m l) = (4 * 50 + 3 * m + 3 * l + 5) div 10"
  by (safe; simp add: sum_eval)

lemma overall_10:
  "m \<in> {100, 85, 70, 40, 10} \<Longrightarrow> l \<in> {30, 50, 100, 60} \<Longrightarrow>
   Math_round (weightedSum 10 m l) = (4 * 10 + 3 * m + 3 * l + 5) div 10"
  by (safe; simp add: sum_eval)

lemma Math_round_weightedSum:
  assumes "f \<in> {100, 75, 40, 20, 5, 50, 10}" "m \<in> {100, 85, 70, 40, 10}"
    "l \<in> {30, 50, 100, 60}"
  shows "Math_round (weightedSum f m l) = (4 * f + 3 * m + 3 * l + 5) div 10"
proof -
  from assms(1) consider "f = 100" | "f = 75" | "f = 40" | "f = 20" | "f = 5" | "f = 50"
    | "f = 10"
    by blast
  then show ?thesis
  proof cases
    case 1 then show ?thesis by (simp only: overall_100 [OF assms(2,3)])
  next
    case 2 then show ?thesis by (simp only: overall_75 [OF assms(2,3)])
  next
    case 3 then show ?thesis by (simp only: overall_40 [OF assms(2,3)])
  next
    case 4 then show ?thesis by (simp only: overall_20 [OF assms(2,3)])
  next
    case 5 then show ?thesis by (simp only: overall_5 [OF assms(2,3)])
  next
    case 6 then show ?thesis by (simp only: overall_50 [OF assms(2,3)])
  next
    case 7 then show ?thesis by (simp only: overall_10 [OF assms(2,3)])
  qed
qed

text \<open>
  The exactness is a property of these score values, not of the arithmetic: on other
  integer scores the rounded sum can fall below a half that the exact sum reaches.
\<close>

lemma Math_round_weightedSum_inexact:
  "Math_round (weightedSum 100 57 8) = 59 \<and> roundHalfUp (2 / 5 * 100 + 3 / 10 * 57 + 3 / 10 * 8) = 60"
  by (simp add: weightedSum_def float_eval fadd_def Math_round_def roundHalfUp_def)

lemma roundHalfUp_tenths:
  "roundHalfUp (2 / 5 * of_int f + 3 / 10 * of_int m + 3 / 10 * of_int l) =
   (4 * f + 3 * m + 3 * l + 5) div 10"
proof -
  have "2 / 5 * of_int f + 3 / 10 * of_int m + 3 / 10 * of_int l + 1 / 2 =
        (of_int (4 * f + 3 * m + 3 * l + 5) :: rat) / of_int 10"
    by simp
  then show ?thesis
    unfolding roundHalfUp_def by (simp only: floor_divide_of_int_eq)
qed

section \<open>Sub-scores of a health score\<close>

lemma freshness_of [simp]:
  "freshness (calculateHealthScore now md gh) = calculateFreshnessScore now md gh"
  by (simp add: calculateHealthScore_def Let_def)

lemma maintainerHealth_of [simp]:
  "maintainerHealth (calculateHealthScore now md gh) = calculateMaintainerScore md gh"
  by (simp add: calculateHealthScore_def Let_def)

lemma licenseHealth_of [simp]:
  "licenseHealth (calculateHealthScore now md gh) = calculateLicenseScore md"
  by (simp add: calculateHealthScore_def Let_def)

lemma freshness_score_cases:
  "FreshnessScore.score (calculateFreshnessScore now md gh) \<in> {100, 75, 40, 20, 5, 50, 10}"
  by (auto simp: calculateFreshnessScore_def freshnessThresholds_def Let_def
      split: option.splits prod.splits if_splits)

lemma maintainer_score_cases:
  "MaintainerScore.score (calculateMaintainerScore md gh) \<in> {100, 85, 70, 40, 10}"
  by (auto simp: calculateMaintainerScore_def Let_def)

lemma license_score_cases:
  "LicenseScore.score (calculateLicenseScore md) \<in> {30, 50, 100, 60}"
  by (auto simp: calculateLicenseScore_def Let_def split: option.splits)

lemma overall_eq:
  "overall (calculateHealthScore now md gh) =
   (4 * FreshnessScore.score (calculateFreshnessScore now md gh)
    + 3 * MaintainerScore.score (calculateMaintainerScore md gh)
    + 3 * LicenseScore.score (calculateLicenseScore md) + 5) div 10"
  unfolding calculateHealthScore_def Let_def HealthScore.select_convs
  by (rule Math_round_weightedSum [OF freshness_score_cases maintainer_score_cases
        license_score_cases])

section \<open>Risk classification\<close>

text \<open>
  Claim C7.  \<open>getRiskLevel\<close> maps an absent score to \<open>unknown\<close>, a score of at least 80 to
  \<open>healthy\<close>, a score from 50 up to but excluding 80 to \<open>warning\<close> and a score below 50 to
  \<open>critical\<close>; at the boundaries 80 is healthy, 79 and 50 are warnings, 49 is critical.
\<close>

theorem getRiskLevel_boundaries:
  "getRiskLevel None = RiskLevel.unknown \<and>
   (80 \<le> s \<longrightarrow> getRiskLevel (Some s) = RiskLevel.healthy) \<and>
   (50 \<le> s \<and> s < 80 \<longrightarrow> getRiskLevel (Some s) = RiskLevel.warning) \<and>
   (s < 50 \<longrightarrow> getRiskLevel (Some s) = RiskLevel.critical) \<and>
   getRiskLevel (Some 80) = RiskLevel.healthy \<and>
   getRiskLevel (Some 79) = RiskLevel.warning \<and>
   getRiskLevel (Some 50) = RiskLevel.warning \<and>
   getRiskLevel (Some 49) = RiskLevel.critical"
  by simp

theorem getRiskLevel_boundaries_witness:
  "(80::int) \<le> 93 \<and> getRiskLevel (Some 93) = RiskLevel.healthy \<and>
   (50::int) \<le> 64 \<and> (64::int) < 80 \<and> getRiskLevel (Some 64) = RiskLevel.warning \<and>
   (17::int) < 50 \<and> getRiskLevel (Some 17) = RiskLevel.critical"
  using getRiskLevel_boundaries [of 93] getRiskLevel_boundaries [of 64]
    getRiskLevel_boundaries [of 17]
  by simp

section \<open>Bounds shared by the claims on ranges and totality\<close>

lemma freshness_score_bounds:
  "5 \<le> FreshnessScore.score (calculateFreshnessScore now md gh)
   \<and> FreshnessScore.score (calculateFreshnessScore now md gh) \<le> 100"
  using freshness_score_cases [of now md gh] by auto

lemma maintainer_score_bounds:
  "10 \<le> MaintainerScore.score (calculateMaintainerScore md gh)
   \<and> MaintainerScore.score (calculateMaintainerScore md gh) \<le> 100"
  using maintainer_score_cases [of md gh] by auto

lemma license_score_bounds:
  "30 \<le> LicenseScore.score (calculateLicenseScore md)
   \<and> LicenseScore.score (calculateLicenseScore md) \<le> 100"
  using license_score_cases [of md] by auto

lemma overall_bounds:
  "14 \<le> overall (calculateHealthScore now md gh)
   \<and> overall (calculateHealthScore now md gh) \<le> 100"
proof -
  let ?x = "4 * FreshnessScore.score (calculateFreshnessScore now md gh)
    + 3 * MaintainerScore.score (calculateMaintainerScore md gh)
    + 3 * LicenseScore.score (calculateLicenseScore md) + 5"
  have lo: "145 \<le> ?x" and hi: "?x \<le> 1005"
    using freshness_score_bounds [of now md gh] maintainer_score_bounds [of md gh]
      license_score_bounds [of md]
    by linarith+
  have "145 div 10 \<le> ?x div 10"
    using lo by (rule zdiv_mono1) simp
  moreover have "?x div 10 \<le> 1005 div 10"
    using hi by (rule zdiv_mono1) simp
  ultimately show ?thesis
    by (simp add: overall_eq)
qed

section \<open>Overall score\<close>

text \<open>
  Claim C1.  For every metadata, optional repository health and current time, the overall
  score that \<open>calculateHealthScore\<close> computes in binary64 arithmetic equals the exact value
  \<open>0.40 \<sqdot> freshness + 0.30 \<sqdot> maintainer + 0.30 \<sqdot> license\<close> rounded half up; in
  particular sub-scores 100, 70 and 100 give the overall score 91.
\<close>

theorem calculateHealthScore_overall:
  "overall (calculateHealthScore now md gh) =
     roundHalfUp
       (2 / 5 * of_int (FreshnessScore.score (freshness (calculateHealthScore now md gh)))
        + 3 / 10 * of_int (MaintainerScore.score (maintainerHealth (calculateHealthScore now md gh)))
        + 3 / 10 * of_int (LicenseScore.score (licenseHealth (calculateHealthScore now md gh))))
   \<and> (FreshnessScore.score (freshness (calculateHealthScore now md gh)) = 100
        \<and> MaintainerScore.score (maintainerHealth (calculateHealthScore now md gh)) = 70
        \<and> LicenseScore.score (licenseHealth (calculateHealthScore now md gh)) = 100
      \<longrightarrow> overall (calculateHealthScore now md gh) = 91)"
proof (intro conjI impI)
  show "overall (calculateHealthScore now md gh) =
     roundHalfUp
       (2 / 5 * of_int (FreshnessScore.score (freshness (calculateHealthScore now md gh)))
        + 3 / 10 * of_int (MaintainerScore.score (maintainerHealth (calculateHealthScore now md gh)))
        + 3 / 10 * of_int (LicenseScore.score (licenseHealth (calculateHealthScore now md gh))))"
    by (simp only: freshness_of maintainerHealth_of licenseHealth_of overall_eq
        roundHalfUp_tenths)
next
  assume "FreshnessScore.score (freshness (calculateHealthScore now md gh)) = 100
        \<and> MaintainerScore.score (maintainerHealth (calculateHealthScore now md gh)) = 70
        \<and> LicenseScore.score (licenseHealth (calculateHealthScore now md gh)) = 100"
  then show "overall (calculateHealthScore now md gh) = 91"
    by (simp add: overall_eq)
qed

lemma normalizeLicense_MIT: "normalizeLicense ''MIT'' = ''MIT''"
  by (simp add: normalizeLicense_def toUpperCase_def toUpperChar_def isSpace_def)

lemma matchesAny_MIT:
  "matchesAny ''MIT'' DEPRECATED_LICENSES = False"
  "matchesAny ''MIT'' OSI_APPROVED_LICENSES = True"
  by (simp_all add: DEPRECATED_LICENSES_def OSI_APPROVED_LICENSES_def toUpperCase_def
      toUpperChar_def)

theorem calculateHealthScore_overall_witness:
  "FreshnessScore.score (freshness (calculateHealthScore 86400000
       (exampleMetadata (Some (Date 0)) [alice, bob] (Some ''MIT'')) None)) = 100
   \<and> MaintainerScore.score (maintainerHealth (calculateHealthScore 86400000
       (exampleMetadata (Some (Date 0)) [alice, bob] (Some ''MIT'')) None)) = 70
   \<and> LicenseScore.score (licenseHealth (calculateHealthScore 86400000
       (exampleMetadata (Some (Date 0)) [alice, bob] (Some ''MIT'')) None)) = 100
   \<and> overall (calculateHealthScore 86400000
       (exampleMetadata (Some (Date 0)) [alice, bob] (Some ''MIT'')) None) = 91"
proof -
  have f: "FreshnessScore.score (freshness (calculateHealthScore 86400000
       (exampleMetadata (Some (Date 0)) [alice, bob] (Some ''MIT'')) None)) = 100"
    by (simp add: calculateFreshnessScore_def resolveLastUpdate_def exampleMetadata_def
        freshnessThresholds_def archived_def MS_PER_DAY_def)
  have m: "MaintainerScore.score (maintainerHealth (calculateHealthScore 86400000
       (exampleMetadata (Some (Date 0)) [alice, bob] (Some ''MIT'')) None)) = 70"
    by (simp add: calculateMaintainerScore_def resolveCount_def exampleMetadata_def)
  have l: "LicenseScore.score (licenseHealth (calculateHealthScore 86400000
       (exampleMetadata (Some (Date 0)) [alice, bob] (Some ''MIT'')) None)) = 100"
    by (simp add: calculateLicenseScore_def exampleMetadata_def normalizeLicense_MIT
        matchesAny_MIT)
  from f m l calculateHealthScore_overall
      [of 86400000 "exampleMetadata (Some (Date 0)) [alice, bob] (Some ''MIT'')" None]
  show ?thesis by blast
qed

section \<open>Score ranges\<close>

text \<open>
  Claim C6.  For every metadata, optional repository health and current time, the overall
  score and each of the freshness, maintainer and license sub-scores of the result of
  \<open>calculateHealthScore\<close> lie between 0 and 100.
\<close>

theorem calculateHealthScore_ranges:
  "0 \<le> overall (calculateHealthScore now md gh)
   \<and> overall (calculateHealthScore now md gh) \<le> 100
   \<and> 0 \<le> FreshnessScore.score (freshness (calculateHealthScore now md gh))
   \<and> FreshnessScore.score (freshness (calculateHealthScore now md gh)) \<le> 100
   \<and> 0 \<le> MaintainerScore.score (maintainerHealth (calculateHealthScore now md gh))
   \<and> MaintainerScore.score (maintainerHealth (calculateHealthScore now md gh)) \<le> 100
   \<and> 0 \<le> LicenseScore.score (licenseHealth (calculateHealthScore now md gh))
   \<and> LicenseScore.score (licenseHealth (calculateHealthScore now md gh)) \<le> 100"
  using freshness_score_bounds [of now md gh] maintainer_score_bounds [of md gh]
    license_score_bounds [of md] overall_bounds [of now md gh]
  unfolding freshness_of maintainerHealth_of licenseHealth_of
  by linarith

section \<open>Freshness\<close>

lemma freshnessThresholds_Num:
  "freshnessThresholds (Num d) =
     (if d < 180 then (100, active)
      else if d < 365 then (75, active)
      else if d < 730 then (40, stale)
      else if d < 1095 then (20, abandoned)
      else (5, abandoned))"
  by (simp add: freshnessThresholds_def)

lemma calculateFreshnessScore_None:
  "resolveLastUpdate md gh = None \<Longrightarrow>
   calculateFreshnessScore now md gh =
     \<lparr> FreshnessScore.score = 50, lastUpdate = None, daysSinceUpdate = None,
       status = FreshnessStatus.unknown \<rparr>"
  by (simp add: calculateFreshnessScore_def)

lemma calculateFreshnessScore_Some:
  "resolveLastUpdate md gh = Some d \<Longrightarrow>
   calculateFreshnessScore now md gh =
     \<lparr> FreshnessScore.score =
         (if archived gh then min (fst (freshnessThresholds (daysSince now d))) 10
          else fst (freshnessThresholds (daysSince now d))),
       lastUpdate = Some d, daysSinceUpdate = Some (daysSince now d),
       status = (if archived gh then abandoned else snd (freshnessThresholds (daysSince now d))) \<rparr>"
  by (simp add: calculateFreshnessScore_def Let_def split: prod.splits)

lemma lastUpdate_resolve:
  "lastUpdate (calculateFreshnessScore now md gh) = resolveLastUpdate md gh"
  by (cases "resolveLastUpdate md gh")
    (simp_all add: calculateFreshnessScore_None calculateFreshnessScore_Some)

text \<open>
  Claim C2.  The freshness sub-score takes as reference timestamp the repository's last
  commit date if there is one and the registry's last-published date otherwise.  Without a
  timestamp it is 50 with status \<open>unknown\<close>.  With one, the days elapsed are the floor of
  the elapsed milliseconds over the milliseconds of a day, and the thresholds map them to
  100/active below 180, 75/active below 365, 40/stale below 730, 20/abandoned below 1095 and
  5/abandoned from 1095 on, exactly at the boundaries; this is the returned sub-score unless
  the repository is archived (claim C5).  The day count of an Invalid Date is NaN, on which
  the claim is silent (every comparison fails and the last branch is taken).
\<close>

theorem freshness_thresholds:
  "(gh = Some g \<and> lastCommitDate g = Some d \<longrightarrow>
      lastUpdate (freshness (calculateHealthScore now md gh)) = Some d)
   \<and> (gh = None \<or> (gh = Some g \<and> lastCommitDate g = None) \<longrightarrow>
      lastUpdate (freshness (calculateHealthScore now md gh)) = lastPublished md)
   \<and> (lastUpdate (freshness (calculateHealthScore now md gh)) = None \<longrightarrow>
      FreshnessScore.score (freshness (calculateHealthScore now md gh)) = 50
      \<and> FreshnessScore.status (freshness (calculateHealthScore now md gh)) = FreshnessStatus.unknown)
   \<and> (lastUpdate (freshness (calculateHealthScore now md gh)) = Some (Date t) \<longrightarrow>
      daysSinceUpdate (freshness (calculateHealthScore now md gh)) =
        Some (Num ((now - t) div 86400000)))
   \<and> (lastUpdate (freshness (calculateHealthScore now md gh)) = Some (Date t)
      \<and> \<not> archived gh \<longrightarrow>
        ((now - t) div 86400000 < 180 \<longrightarrow>
          FreshnessScore.score (freshness (calculateHealthScore now md gh)) = 100
          \<and> FreshnessScore.status (freshness (calculateHealthScore now md gh)) = active)
      \<and> (180 \<le> (now - t) div 86400000 \<and> (now - t) div 86400000 < 365 \<longrightarrow>
          FreshnessScore.score (freshness (calculateHealthScore now md gh)) = 75
          \<and> FreshnessScore.status (freshness (calculateHealthScore now md gh)) = active)
      \<and> (365 \<le> (now - t) div 86400000 \<and> (now - t) div 86400000 < 730 \<longrightarrow>
          FreshnessScore.score (freshness (calculateHealthScore now md gh)) = 40
          \<and> FreshnessScore.status (freshness (calculateHealthScore now md gh)) = stale)
      \<and> (730 \<le> (now - t) div 86400000 \<and> (now - t) div 86400000 < 1095 \<longrightarrow>
          FreshnessScore.score (freshness (calculateHealthScore now md gh)) = 20
          \<and> FreshnessScore.status (freshness (calculateHealthScore now md gh)) = abandoned)
      \<and> (1095 \<le> (now - t) div 86400000 \<longrightarrow>
          FreshnessScore.score (freshness (calculateHealthScore now md gh)) = 5
          \<and> FreshnessScore.status (freshness (calculateHealthScore now md gh)) = abandoned))
   \<and> (n < 180 \<longrightarrow> freshnessThresholds (Num n) = (100, active))
   \<and> (180 \<le> n \<and> n < 365 \<longrightarrow> freshnessThresholds (Num n) = (75, active))
   \<and> (365 \<le> n \<and> n < 730 \<longrightarrow> freshnessThresholds (Num n) = (40, stale))
   \<and> (730 \<le> n \<and> n < 1095 \<longrightarrow> freshnessThresholds (Num n) = (20, abandoned))
   \<and> (1095 \<le> n \<longrightarrow> freshnessThresholds (Num n) = (5, abandoned))
   \<and> map freshnessThresholds [Num 179, Num 180, Num 364, Num 365, Num 729, Num 730, Num 1094, Num 1095]
       = [(100, active), (75, active), (75, active), (40, stale), (40, stale),
          (20, abandoned), (20, abandoned), (5, abandoned)]"
proof -
  have a: "gh = Some g \<and> lastCommitDate g = Some d \<longrightarrow>
      lastUpdate (calculateFreshnessScore now md gh) = Some d"
    by (simp add: lastUpdate_resolve resolveLastUpdate_def)
  have b: "gh = None \<or> (gh = Some g \<and> lastCommitDate g = None) \<longrightarrow>
      lastUpdate (calculateFreshnessScore now md gh) = lastPublished md"
    by (auto simp: lastUpdate_resolve resolveLastUpdate_def)
  have c: "lastUpdate (calculateFreshnessScore now md gh) = None \<longrightarrow>
      FreshnessScore.score (calculateFreshnessScore now md gh) = 50
      \<and> FreshnessScore.status (calculateFreshnessScore now md gh) = FreshnessStatus.unknown"
    by (simp add: lastUpdate_resolve calculateFreshnessScore_None)
  have d: "lastUpdate (calculateFreshnessScore now md gh) = Some (Date t) \<longrightarrow>
      daysSinceUpdate (calculateFreshnessScore now md gh) = Some (Num ((now - t) div 86400000))"
    by (simp add: lastUpdate_resolve calculateFreshnessScore_Some MS_PER_DAY_def)
  have e: "lastUpdate (calculateFreshnessScore now md gh) = Some (Date t)
      \<and> \<not> archived gh \<longrightarrow>
        ((now - t) div 86400000 < 180 \<longrightarrow>
          FreshnessScore.score (calculateFreshnessScore now md gh) = 100
          \<and> FreshnessScore.status (calculateFreshnessScore now md gh) = active)
      \<and> (180 \<le> (now - t) div 86400000 \<and> (now - t) div 86400000 < 365 \<longrightarrow>
          FreshnessScore.score (calculateFreshnessScore now md gh) = 75
          \<and> FreshnessScore.status (calculateFreshnessScore now md gh) = active)
      \<and> (365 \<le> (now - t) div 86400000 \<and> (now - t) div 86400000 < 730 \<longrightarrow>
          FreshnessScore.score (calculateFreshnessScore now md gh) = 40
          \<and> FreshnessScore.status (calculateFreshnessScore now md gh) = stale)
      \<and> (730 \<le> (now - t) div 86400000 \<and> (now - t) div 86400000 < 1095 \<longrightarrow>
          FreshnessScore.score (calculateFreshnessScore now md gh) = 20
          \<and> FreshnessScore.status (calculateFreshnessScore now md gh) = abandoned)
      \<and> (1095 \<le> (now - t) div 86400000 \<longrightarrow>
          FreshnessScore.score (calculateFreshnessScore now md gh) = 5
          \<and> FreshnessScore.status (calculateFreshnessScore now md gh) = abandoned)"
    by (simp add: lastUpdate_resolve calculateFreshnessScore_Some MS_PER_DAY_def freshnessThresholds_Num)
  have f: "map freshnessThresholds [Num 179, Num 180, Num 364, Num 365, Num 729, Num 730, Num 1094, Num 1095]
       = [(100, active), (75, active), (75, active), (40, stale), (40, stale),
          (20, abandoned), (20, abandoned), (5, abandoned)]"
    by (simp add: freshnessThresholds_Num)
  have g: "n < 180 \<longrightarrow> freshnessThresholds (Num n) = (100, active)"
    "180 \<le> n \<and> n < 365 \<longrightarrow> freshnessThresholds (Num n) = (75, active)"
    "365 \<le> n \<and> n < 730 \<longrightarrow> freshnessThresholds (Num n) = (40, stale)"
    "730 \<le> n \<and> n < 1095 \<longrightarrow> freshnessThresholds (Num n) = (20, abandoned)"
    "1095 \<le> n \<longrightarrow> freshnessThresholds (Num n) = (5, abandoned)"
    by (simp_all add: freshnessThresholds_Num)
  from a b c d e g f show ?thesis
    unfolding freshness_of by (intro conjI)
qed


lemmas freshness_eval = calculateFreshnessScore_def resolveLastUpdate_def exampleMetadata_def
  exampleRepo_def freshnessThresholds_def archived_def MS_PER_DAY_def

theorem freshness_thresholds_witness:
  "lastUpdate (freshness (calculateHealthScore 17280000000
       (exampleMetadata (Some (Date 8640000000)) [] None)
       (Some (exampleRepo (Some (Date 0)) 4 False)))) = Some (Date 0)
   \<and> daysSinceUpdate (freshness (calculateHealthScore 17280000000
       (exampleMetadata (Some (Date 8640000000)) [] None)
       (Some (exampleRepo (Some (Date 0)) 4 False)))) = Some (Num 200)
   \<and> FreshnessScore.score (freshness (calculateHealthScore 17280000000
       (exampleMetadata (Some (Date 8640000000)) [] None)
       (Some (exampleRepo (Some (Date 0)) 4 False)))) = 75
   \<and> lastUpdate (freshness (calculateHealthScore 15551999999
       (exampleMetadata (Some (Date 0)) [] None) None)) = Some (Date 0)
   \<and> daysSinceUpdate (freshness (calculateHealthScore 15551999999
       (exampleMetadata (Some (Date 0)) [] None) None)) = Some (Num 179)
   \<and> FreshnessScore.score (freshness (calculateHealthScore 15551999999
       (exampleMetadata (Some (Date 0)) [] None) None)) = 100
   \<and> FreshnessScore.status (freshness (calculateHealthScore 15551999999
       (exampleMetadata (Some (Date 0)) [] None) None)) = active
   \<and> lastUpdate (freshness (calculateHealthScore 15551999999
       (exampleMetadata None [] None) (Some (exampleRepo None 0 False)))) = None
   \<and> FreshnessScore.score (freshness (calculateHealthScore 15551999999
       (exampleMetadata None [] None) (Some (exampleRepo None 0 False)))) = 50
   \<and> FreshnessScore.status (freshness (calculateHealthScore 15551999999
       (exampleMetadata None [] None) (Some (exampleRepo None 0 False)))) = FreshnessStatus.unknown
   \<and> FreshnessScore.score (freshness (calculateHealthScore 31536000000
       (exampleMetadata (Some (Date 0)) [] None) None)) = 40
   \<and> FreshnessScore.status (freshness (calculateHealthScore 31536000000
       (exampleMetadata (Some (Date 0)) [] None) None)) = stale
   \<and> FreshnessScore.score (freshness (calculateHealthScore 63072000000
       (exampleMetadata (Some (Date 0)) [] None) None)) = 20
   \<and> FreshnessScore.status (freshness (calculateHealthScore 63072000000
       (exampleMetadata (Some (Date 0)) [] None) None)) = abandoned
   \<and> FreshnessScore.score (freshness (calculateHealthScore 94608000000
       (exampleMetadata (Some (Date 0)) [] None) None)) = 5
   \<and> FreshnessScore.status (freshness (calculateHealthScore 94608000000
       (exampleMetadata (Some (Date 0)) [] None) None)) = abandoned
   \<and> freshnessThresholds (Num 200) = (75, active)
   \<and> freshnessThresholds (Num (- 3)) = (100, active)
   \<and> freshnessThresholds (Num 500) = (40, stale)
   \<and> freshnessThresholds (Num 1000) = (20, abandoned)
   \<and> freshnessThresholds (Num 4000) = (5, abandoned)"
  using
    freshness_thresholds [of "Some (exampleRepo (Some (Date 0)) 4 False)"
      "exampleRepo (Some (Date 0)) 4 False" "Date 0" 17280000000
      "exampleMetadata (Some (Date 8640000000)) [] None" 0 200]
    freshness_thresholds [of None "exampleRepo None 0 False" "Date 0" 15551999999
      "exampleMetadata (Some (Date 0)) [] None" 0 "- 3"]
    freshness_thresholds [of "Some (exampleRepo None 0 False)" "exampleRepo None 0 False"
      "Date 0" 15551999999 "exampleMetadata None [] None" 0 500]
    freshness_thresholds [of None "exampleRepo None 0 False" "Date 0" 31536000000
      "exampleMetadata (Some (Date 0)) [] None" 0 500]
    freshness_thresholds [of None "exampleRepo None 0 False" "Date 0" 63072000000
      "exampleMetadata (Some (Date 0)) [] None" 0 1000]
    freshness_thresholds [of None "exampleRepo None 0 False" "Date 0" 94608000000
      "exampleMetadata (Some (Date 0)) [] None" 0 4000]
  by (simp add: freshness_eval)

text \<open>
  Claim C5.  When the repository is archived, whatever score and status the threshold
  mapping produced for the resolved timestamp, the returned freshness score is the minimum
  of that score and 10, hence at most 10, and the status is \<open>abandoned\<close>.
\<close>

theorem archived_override:
  "gh = Some g \<and> isArchived g
   \<and> lastUpdate (freshness (calculateHealthScore now md gh)) = Some d
   \<and> freshnessThresholds (daysSince now d) = (sc, st) \<longrightarrow>
     FreshnessScore.score (freshness (calculateHealthScore now md gh)) = min sc 10
     \<and> FreshnessScore.score (freshness (calculateHealthScore now md gh)) \<le> 10
     \<and> FreshnessScore.status (freshness (calculateHealthScore now md gh)) = abandoned"
  by (auto simp: lastUpdate_resolve calculateFreshnessScore_Some archived_def)

theorem archived_override_witness:
  "isArchived (exampleRepo (Some (Date 0)) 4 True)
   \<and> lastUpdate (freshness (calculateHealthScore 864000000 (exampleMetadata None [] None)
        (Some (exampleRepo (Some (Date 0)) 4 True)))) = Some (Date 0)
   \<and> freshnessThresholds (daysSince 864000000 (Date 0)) = (100, active)
   \<and> FreshnessScore.score (freshness (calculateHealthScore 864000000
        (exampleMetadata None [] None) (Some (exampleRepo (Some (Date 0)) 4 True)))) = 10
   \<and> FreshnessScore.status (freshness (calculateHealthScore 864000000
        (exampleMetadata None [] None) (Some (exampleRepo (Some (Date 0)) 4 True)))) = abandoned
   \<and> freshnessThresholds (daysSince 172800000000 (Date 0)) = (5, abandoned)
   \<and> FreshnessScore.score (freshness (calculateHealthScore 172800000000
        (exampleMetadata None [] None) (Some (exampleRepo (Some (Date 0)) 4 True)))) = 5"
  using
    archived_override [of "Some (exampleRepo (Some (Date 0)) 4 True)"
      "exampleRepo (Some (Date 0)) 4 True" 864000000 "exampleMetadata None [] None" "Date 0"
      100 active]
    archived_override [of "Some (exampleRepo (Some (Date 0)) 4 True)"
      "exampleRepo (Some (Date 0)) 4 True" 172800000000 "exampleMetadata None [] None" "Date 0"
      5 abandoned]
  by (simp add: freshness_eval)

text \<open>
  Claim C10.  When the repository is archived but neither a last commit date nor a
  last-published date is known, the freshness sub-score is 50 with status \<open>unknown\<close>: the
  archived override is not applied.
\<close>

theorem archived_without_timestamp:
  "gh = Some g \<and> isArchived g \<and> lastCommitDate g = None \<and> lastPublished md = None \<longrightarrow>
     FreshnessScore.score (freshness (calculateHealthScore now md gh)) = 50
     \<and> FreshnessScore.status (freshness (calculateHealthScore now md gh)) = FreshnessStatus.unknown
     \<and> lastUpdate (freshness (calculateHealthScore now md gh)) = None
     \<and> daysSinceUpdate (freshness (calculateHealthScore now md gh)) = None"
  by (auto simp: calculateFreshnessScore_None resolveLastUpdate_def)

theorem archived_without_timestamp_witness:
  "isArchived (exampleRepo None 12 True) \<and> lastCommitDate (exampleRepo None 12 True) = None
   \<and> lastPublished (exampleMetadata None [alice] (Some ''MIT'')) = None
   \<and> FreshnessScore.score (freshness (calculateHealthScore 1700000000000
        (exampleMetadata None [alice] (Some ''MIT'')) (Some (exampleRepo None 12 True)))) = 50
   \<and> FreshnessScore.status (freshness (calculateHealthScore 1700000000000
        (exampleMetadata None [alice] (Some ''MIT'')) (Some (exampleRepo None 12 True))))
       = FreshnessStatus.unknown"
  using archived_without_timestamp [of "Some (exampleRepo None 12 True)"
      "exampleRepo None 12 True" "exampleMetadata None [alice] (Some ''MIT'')" 1700000000000]
  by (simp add: exampleMetadata_def exampleRepo_def)

section \<open>License\<close>







lemmas license_eval = normalizeLicense_def toUpperCase_def toUpperChar_def isSpace_def
  DEPRECATED_LICENSES_def OSI_APPROVED_LICENSES_def

lemma normalizeLicense_examples:
  "normalizeLicense ''GPL-2.0'' = ''GPL-2.0''"
  "normalizeLicense ''Some-Custom-License'' = ''SOME-CUSTOM-LICENSE''"
  "normalizeLicense ''MIT OR GPL-2.0'' = ''MIT-OR-GPL-2.0''"
  "normalizeLicense ''mit  license'' = ''MIT-LICENSE''"
  "normalizeLicense [] = []"
  by (simp_all add: license_eval)

lemma toUpperCase_tokens:
  "map toUpperCase DEPRECATED_LICENSES =
     [''GPL-2.0'', ''LGPL-2.0'', ''LGPL-2.1'', ''BSD-4-CLAUSE'', ''WTFPL'']"
  "map toUpperCase OSI_APPROVED_LICENSES =
     [''MIT'', ''APACHE-2.0'', ''BSD-2-CLAUSE'', ''BSD-3-CLAUSE'', ''ISC'', ''MPL-2.0'',
      ''GPL-3.0'', ''GPL-3.0-ONLY'', ''GPL-3.0-OR-LATER'', ''LGPL-3.0'', ''LGPL-3.0-ONLY'',
      ''LGPL-3.0-OR-LATER'', ''AGPL-3.0'', ''UNLICENSE'', ''0BSD'', ''CC0-1.0'', ''ZLIB'',
      ''ARTISTIC-2.0'', ''EPL-2.0'', ''EUPL-1.2'']"
  by (simp_all add: DEPRECATED_LICENSES_def OSI_APPROVED_LICENSES_def toUpperCase_def
      toUpperChar_def)

lemma list_ex_toUpperCase:
  "list_ex (\<lambda>t. includesStr n (toUpperCase t)) ts = list_ex (includesStr n) (map toUpperCase ts)"
  by (induction ts) auto

lemma specLicenseScore_Some:
  "specLicenseScore (Some l) =
     (if list_ex (includesStr (normalizeLicense l)) (map toUpperCase DEPRECATED_LICENSES)
        then (50, deprecated)
      else if list_ex (includesStr (normalizeLicense l)) (map toUpperCase OSI_APPROVED_LICENSES)
        then (100, approved)
      else (60, LicenseStatus.warning))"
  by (simp add: specLicenseScore_def list_ex_toUpperCase Let_def)

lemma specLicenseScore_examples:
  "specLicenseScore (Some ''MIT'') = (100, approved)"
  "specLicenseScore (Some ''GPL-2.0'') = (50, deprecated)"
  "specLicenseScore (Some ''Some-Custom-License'') = (60, LicenseStatus.warning)"
  "specLicenseScore (Some ''MIT OR GPL-2.0'') = (50, deprecated)"
  "specLicenseScore (Some ''mit  license'') = (100, approved)"
  "specLicenseScore (Some []) = (60, LicenseStatus.warning)"
  by (simp_all add: specLicenseScore_Some normalizeLicense_examples normalizeLicense_MIT
      toUpperCase_tokens)









section \<open>Maintainers\<close>

lemma count_resolve:
  "count (calculateMaintainerScore md gh) = resolveCount md gh"
  by (simp add: calculateMaintainerScore_def Let_def split: prod.splits)

text \<open>
  Claim C4.  The maintainer sub-score counts the repository's contributors when repository
  health was fetched and their count is not zero, and the registry's maintainers otherwise;
  the returned count is that number.  A count of at least 5 gives 100/healthy, 3 or 4 gives
  85/healthy, 2 gives 70/warning, 1 gives 40/warning and 0 gives 10/critical.
\<close>

theorem maintainer_mapping:
  "(gh = Some g \<and> contributorCount g \<noteq> 0 \<longrightarrow>
      count (maintainerHealth (calculateHealthScore now md gh)) = contributorCount g)
   \<and> (gh = None \<or> (gh = Some g \<and> contributorCount g = 0) \<longrightarrow>
      count (maintainerHealth (calculateHealthScore now md gh)) = int (length (maintainers md)))
   \<and> (5 \<le> count (maintainerHealth (calculateHealthScore now md gh)) \<longrightarrow>
      MaintainerScore.score (maintainerHealth (calculateHealthScore now md gh)) = 100
      \<and> MaintainerScore.status (maintainerHealth (calculateHealthScore now md gh))
          = MaintainerStatus.healthy)
   \<and> (3 \<le> count (maintainerHealth (calculateHealthScore now md gh))
      \<and> count (maintainerHealth (calculateHealthScore now md gh)) < 5 \<longrightarrow>
      MaintainerScore.score (maintainerHealth (calculateHealthScore now md gh)) = 85
      \<and> MaintainerScore.status (maintainerHealth (calculateHealthScore now md gh))
          = MaintainerStatus.healthy)
   \<and> (count (maintainerHealth (calculateHealthScore now md gh)) = 2 \<longrightarrow>
      MaintainerScore.score (maintainerHealth (calculateHealthScore now md gh)) = 70
      \<and> MaintainerScore.status (maintainerHealth (calculateHealthScore now md gh))
          = MaintainerStatus.warning)
   \<and> (count (maintainerHealth (calculateHealthScore now md gh)) = 1 \<longrightarrow>
      MaintainerScore.score (maintainerHealth (calculateHealthScore now md gh)) = 40
      \<and> MaintainerScore.status (maintainerHealth (calculateHealthScore now md gh))
          = MaintainerStatus.warning)
   \<and> (count (maintainerHealth (calculateHealthScore now md gh)) = 0 \<longrightarrow>
      MaintainerScore.score (maintainerHealth (calculateHealthScore now md gh)) = 10
      \<and> MaintainerScore.status (maintainerHealth (calculateHealthScore now md gh))
          = MaintainerStatus.critical)"
  unfolding maintainerHealth_of
  by (auto simp: calculateMaintainerScore_def resolveCount_def Let_def)

theorem maintainer_mapping_witness:
  "count (maintainerHealth (calculateHealthScore 0 (exampleMetadata None [alice] None)
       (Some (exampleRepo None 10 False)))) = 10
   \<and> MaintainerScore.score (maintainerHealth (calculateHealthScore 0
       (exampleMetadata None [alice] None) (Some (exampleRepo None 10 False)))) = 100
   \<and> count (maintainerHealth (calculateHealthScore 0 (exampleMetadata None [alice] None)
       (Some (exampleRepo None 4 False)))) = 4
   \<and> MaintainerScore.score (maintainerHealth (calculateHealthScore 0
       (exampleMetadata None [alice] None) (Some (exampleRepo None 4 False)))) = 85
   \<and> count (maintainerHealth (calculateHealthScore 0 (exampleMetadata None [alice, bob] None)
       (Some (exampleRepo None 0 False)))) = 2
   \<and> MaintainerScore.score (maintainerHealth (calculateHealthScore 0
       (exampleMetadata None [alice, bob] None) (Some (exampleRepo None 0 False)))) = 70
   \<and> MaintainerScore.status (maintainerHealth (calculateHealthScore 0
       (exampleMetadata None [alice, bob] None) (Some (exampleRepo None 0 False))))
       = MaintainerStatus.warning
   \<and> count (maintainerHealth (calculateHealthScore 0 (exampleMetadata None [alice] None)
       None)) = 1
   \<and> MaintainerScore.score (maintainerHealth (calculateHealthScore 0
       (exampleMetadata None [alice] None) None)) = 40
   \<and> count (maintainerHealth (calculateHealthScore 0 (exampleMetadata None [] None)
       None)) = 0
   \<and> MaintainerScore.score (maintainerHealth (calculateHealthScore 0
       (exampleMetadata None [] None) None)) = 10
   \<and> MaintainerScore.status (maintainerHealth (calculateHealthScore 0
       (exampleMetadata None [] None) None)) = MaintainerStatus.critical"
  using
    maintainer_mapping [of "Some (exampleRepo None 10 False)" "exampleRepo None 10 False" 0
      "exampleMetadata None [alice] None"]
    maintainer_mapping [of "Some (exampleRepo None 4 False)" "exampleRepo None 4 False" 0
      "exampleMetadata None [alice] None"]
    maintainer_mapping [of "Some (exampleRepo None 0 False)" "exampleRepo None 0 False" 0
      "exampleMetadata None [alice, bob] None"]
    maintainer_mapping [of None "exampleRepo None 0 False" 0 "exampleMetadata None [alice] None"]
    maintainer_mapping [of None "exampleRepo None 0 False" 0 "exampleMetadata None [] None"]
  by (simp add: exampleMetadata_def exampleRepo_def)

section \<open>Totality\<close>

text \<open>
  On metadata that has its declared type the scorer has no failing branch: its result is
  well formed and every score is positive; on metadata whose nullable fields are all null
  and whose maintainer list is empty, without repository health, the result is
  50/unknown, 10/critical, 30/unknown and overall 32.
\<close>

lemma calculateHealthScore_wellFormed:
  "wellFormed (calculateHealthScore now md gh)
   \<and> 0 < FreshnessScore.score (freshness (calculateHealthScore now md gh))
   \<and> 0 < MaintainerScore.score (maintainerHealth (calculateHealthScore now md gh))
   \<and> 0 < LicenseScore.score (licenseHealth (calculateHealthScore now md gh))
   \<and> 0 < overall (calculateHealthScore now md gh)
   \<and> calculateHealthScore now
        \<lparr> PackageMetadata.name = n, version = v, lastPublished = None, maintainers = [],
          license = None, repositoryUrl = None, homepage = None, description = None \<rparr> None =
      \<lparr> overall = 32,
        freshness = \<lparr> FreshnessScore.score = 50, lastUpdate = None, daysSinceUpdate = None,
                      status = FreshnessStatus.unknown \<rparr>,
        maintainerHealth = \<lparr> MaintainerScore.score = 10, count = 0,
                             status = MaintainerStatus.critical \<rparr>,
        licenseHealth = \<lparr> LicenseScore.score = 30, license = None,
                          status = LicenseStatus.unknown \<rparr> \<rparr>"
proof -
  let ?md = "\<lparr> PackageMetadata.name = n, version = v, lastPublished = None, maintainers = [],
          license = None, repositoryUrl = None, homepage = None, description = None \<rparr>"
  have r: "roundHalfUp
       (2 / 5 * of_int (FreshnessScore.score (calculateFreshnessScore now md gh))
        + 3 / 10 * of_int (MaintainerScore.score (calculateMaintainerScore md gh))
        + 3 / 10 * of_int (LicenseScore.score (calculateLicenseScore md)))
      = overall (calculateHealthScore now md gh)"
    by (simp only: overall_eq roundHalfUp_tenths)
  have wf: "wellFormed (calculateHealthScore now md gh)"
    unfolding wellFormed_def freshness_of maintainerHealth_of licenseHealth_of r
    using freshness_score_bounds [of now md gh] maintainer_score_bounds [of md gh]
      license_score_bounds [of md] overall_bounds [of now md gh]
    by simp
  have pos: "0 < FreshnessScore.score (calculateFreshnessScore now md gh)"
    "0 < MaintainerScore.score (calculateMaintainerScore md gh)"
    "0 < LicenseScore.score (calculateLicenseScore md)"
    "0 < overall (calculateHealthScore now md gh)"
    using freshness_score_bounds [of now md gh] maintainer_score_bounds [of md gh]
      license_score_bounds [of md] overall_bounds [of now md gh]
    by linarith+
  have f: "calculateFreshnessScore now ?md None =
      \<lparr> FreshnessScore.score = 50, lastUpdate = None, daysSinceUpdate = None,
                      status = FreshnessStatus.unknown \<rparr>"
    by (simp add: calculateFreshnessScore_def resolveLastUpdate_def)
  have m: "calculateMaintainerScore ?md None =
      \<lparr> MaintainerScore.score = 10, count = 0, status = MaintainerStatus.critical \<rparr>"
    by (simp add: calculateMaintainerScore_def resolveCount_def)
  have l: "calculateLicenseScore ?md =
      \<lparr> LicenseScore.score = 30, license = None, status = LicenseStatus.unknown \<rparr>"
    by (simp add: calculateLicenseScore_def)
  have o: "overall (calculateHealthScore now ?md None) = 32"
    unfolding overall_eq f m l by simp
  have eq: "calculateHealthScore now ?md None =
      \<lparr> overall = 32,
        freshness = \<lparr> FreshnessScore.score = 50, lastUpdate = None, daysSinceUpdate = None,
                      status = FreshnessStatus.unknown \<rparr>,
        maintainerHealth = \<lparr> MaintainerScore.score = 10, count = 0,
                             status = MaintainerStatus.critical \<rparr>,
        licenseHealth = \<lparr> LicenseScore.score = 30, license = None,
                          status = LicenseStatus.unknown \<rparr> \<rparr>"
    using o by (simp add: f m l calculateHealthScore_def Let_def)
  from wf pos eq show ?thesis
    unfolding freshness_of maintainerHealth_of licenseHealth_of by (intro conjI)
qed

text \<open>On a license that is null or a string the run-time scorer is the typed scorer.\<close>

lemma calculateLicenseScoreJs_typed:
  "calculateLicenseScoreJs (typedLicense (PackageMetadata.license md)) = Inr (calculateLicenseScore md)"
  by (cases "PackageMetadata.license md")
    (simp_all add: calculateLicenseScoreJs_def calculateLicenseScore_def normalizeLicense_def Let_def)

lemma calculateHealthScoreJs_typed:
  "calculateHealthScoreJs now md (typedLicense (PackageMetadata.license md)) gh =
     Inr (calculateHealthScore now md gh)"
  by (simp add: calculateHealthScoreJs_def calculateLicenseScoreJs_typed calculateHealthScore_def
      Let_def)

text \<open>
  What the clients' \<^verbatim>\<open>|| null\<close> lets through: every truthy value, whatever its type, and
  never the empty string.
\<close>

lemma orNull_cases:
  "orNull JsonNull = JsonNull" "orNull (JsonString []) = JsonNull"
  "l \<noteq> [] \<Longrightarrow> orNull (JsonString l) = JsonString l"
  "orNull (JsonObject ps) = JsonObject ps"
  by (simp_all add: orNull_def)

lemma orNull_never_empty: "orNull v \<noteq> JsonString []"
  by (cases v) (auto simp: orNull_def)

lemma orNull_non_string:
  "orNull (JsonBool True) = JsonBool True"
  "x \<noteq> 0 \<Longrightarrow> orNull (JsonNumber x) = JsonNumber x"
  "orNull (JsonArray vs) = JsonArray vs"
  by (simp_all add: orNull_def)

lemma calculateHealthScoreJs_non_string:
  "truthy v \<Longrightarrow> asString v = None \<Longrightarrow> calculateHealthScoreJs now md v gh = Inl TypeError"
  by (cases v) (simp_all add: calculateHealthScoreJs_def calculateLicenseScoreJs_def)

text \<open>
  Claim C8 does not hold of the code.  The scorer never fails on metadata of the declared
  type, but the type is not checked at run time and the npm client passes the registry's
  \<^verbatim>\<open>license\<close> value through \<^verbatim>\<open>data.license || null\<close>.  A license in the legacy object form
  is truthy, so it reaches the scorer unchanged and passes the guard \<^verbatim>\<open>!license\<close>; the call
  \<^verbatim>\<open>license.toUpperCase()\<close> then raises a TypeError and \<^verbatim>\<open>calculateHealthScore\<close> returns no
  HealthScore.  On a license that is null or a string it returns, and the result is well
  formed.
\<close>

theorem calculateHealthScore_raises:
  "orNull (JsonObject ps) = JsonObject ps
   \<and> calculateHealthScoreJs now md (JsonObject ps) gh = Inl TypeError
   \<and> orNull legacyLicense = legacyLicense
   \<and> calculateHealthScoreJs 0 (exampleMetadata None [] None) (orNull legacyLicense) None
       = Inl TypeError
   \<and> calculateHealthScoreJs now md (typedLicense (PackageMetadata.license md)) gh
       = Inr (calculateHealthScore now md gh)
   \<and> wellFormed (calculateHealthScore now md gh)"
proof -
  have a: "orNull (JsonObject ps) = JsonObject ps"
    by (simp add: orNull_def)
  have b: "calculateHealthScoreJs now md (JsonObject ps) gh = Inl TypeError" for now md ps gh
    by (simp add: calculateHealthScoreJs_def calculateLicenseScoreJs_def)
  have c: "orNull legacyLicense = legacyLicense"
    by (simp add: orNull_def legacyLicense_def)
  have d: "calculateHealthScoreJs 0 (exampleMetadata None [] None) (orNull legacyLicense) None
       = Inl TypeError"
    unfolding c by (simp add: legacyLicense_def b)
  have e: "calculateHealthScoreJs now md (typedLicense (PackageMetadata.license md)) gh
        = Inr (calculateHealthScore now md gh)
      \<and> wellFormed (calculateHealthScore now md gh)"
    using calculateHealthScore_wellFormed [of now md gh]
    by (simp add: calculateHealthScoreJs_typed)
  from a b c d e show ?thesis by blast
qed

section \<open>Scan summary\<close>

lemma analyseFrom_length [simp]: "length (analyseFrom w github k deps) = length deps"
  by (induction deps arbitrary: k) auto

lemma analyseFrom_nth:
  "i < length deps \<Longrightarrow>
   analyseFrom w github k deps ! i = analyseDependency w github (k + i) (deps ! i)"
proof (induction deps arbitrary: k i)
  case Nil
  then show ?case by simp
next
  case (Cons dep deps)
  then show ?case by (cases i) auto
qed

lemma analyseAll_length [simp]: "length (analyseAll w github deps) = length deps"
  by (simp add: analyseAll_def)

lemma analyseAll_nth:
  "i < length deps \<Longrightarrow>
   analyseAll w github deps ! i = analyseDependency w github i (deps ! i)"
  by (simp add: analyseAll_def analyseFrom_nth)

lemma analyseDependency_thrown:
  "fetchMetadata w i dep = Inl msg \<Longrightarrow>
   analyseDependency w github i dep =
     \<lparr> dependency = dep, metadata = None, health = None, error = Some msg \<rparr>"
  by (simp add: analyseDependency_def)

lemma analyseDependency_fetched:
  "fetchMetadata w i dep = Inr md \<Longrightarrow>
   analyseDependency w github i dep =
     \<lparr> dependency = dep, metadata = Some md,
       health = Some (calculateHealthScore (clock w i) md (fetchHealth w github i md)),
       error = None \<rparr>"
  by (simp add: analyseDependency_def)

lemma riskOf_unknown_iff: "riskOf a = RiskLevel.unknown \<longleftrightarrow> health a = None"
  by (cases "health a") (auto simp: riskOf_def)

lemma analyseDependency_error_iff:
  "error (analyseDependency w github i dep) \<noteq> None \<longleftrightarrow>
   health (analyseDependency w github i dep) = None"
  by (cases "fetchMetadata w i dep") (simp_all add: analyseDependency_def)

lemma tallies_partition:
  "(\<forall>a \<in> set as. (error a \<noteq> None) = (health a = None)) \<Longrightarrow>
   healthy (summarise as) + warning (summarise as) + critical (summarise as)
     + failed (summarise as) = total (summarise as)"
proof (induction as)
  case Nil
  then show ?case by (simp add: summarise_def)
next
  case (Cons a as)
  then have IH: "healthy (summarise as) + warning (summarise as) + critical (summarise as)
     + failed (summarise as) = total (summarise as)"
    and a: "(error a \<noteq> None) = (health a = None)"
    by auto
  show ?case
  proof (cases "riskOf a")
    case healthy
    with a IH show ?thesis by (auto simp: summarise_def riskOf_unknown_iff [symmetric])
  next
    case warning
    with a IH show ?thesis by (auto simp: summarise_def riskOf_unknown_iff [symmetric])
  next
    case critical
    with a IH show ?thesis by (auto simp: summarise_def riskOf_unknown_iff [symmetric])
  next
    case unknown
    with a IH show ?thesis by (auto simp: summarise_def riskOf_unknown_iff [symmetric])
  qed
qed

lemma analyseAll_set:
  assumes "a \<in> set (analyseAll w github deps)"
  shows "(error a \<noteq> None) = (health a = None)"
proof -
  from assms obtain i where "i < length deps" and "a = analyseAll w github deps ! i"
    by (auto simp: in_set_conv_nth)
  then have "a = analyseDependency w github i (deps ! i)"
    by (simp add: analyseAll_nth)
  then show ?thesis
    by (simp only: analyseDependency_error_iff)
qed

text \<open>
  Claim C9.  For every list of analyses the summary counts as failed exactly the entries
  with a recorded error, and as healthy, warning and critical the entries by the risk level
  of their overall score.  A dependency whose registry fetch threw has no health and a
  recorded error: it is counted in failed and in none of the other three tallies; and over
  a whole scan the four tallies add up to the number of dependencies.
\<close>

theorem scan_summary:
  "failed (summarise as) = card {i. i < length as \<and> error (as ! i) \<noteq> None}
   \<and> healthy (summarise as) =
       card {i. i < length as
              \<and> getRiskLevel (map_option overall (health (as ! i))) = RiskLevel.healthy}
   \<and> warning (summarise as) =
       card {i. i < length as
              \<and> getRiskLevel (map_option overall (health (as ! i))) = RiskLevel.warning}
   \<and> critical (summarise as) =
       card {i. i < length as
              \<and> getRiskLevel (map_option overall (health (as ! i))) = RiskLevel.critical}
   \<and> (i < length deps \<and> fetchMetadata w i (deps ! i) = Inl msg \<longrightarrow>
        health (analyseAll w github deps ! i) = None
        \<and> error (analyseAll w github deps ! i) = Some msg
        \<and> i \<in> {i. i < length (analyseAll w github deps)
                   \<and> error (analyseAll w github deps ! i) \<noteq> None}
        \<and> i \<notin> {i. i < length (analyseAll w github deps)
                   \<and> getRiskLevel (map_option overall (health (analyseAll w github deps ! i)))
                       = RiskLevel.healthy}
        \<and> i \<notin> {i. i < length (analyseAll w github deps)
                   \<and> getRiskLevel (map_option overall (health (analyseAll w github deps ! i)))
                       = RiskLevel.warning}
        \<and> i \<notin> {i. i < length (analyseAll w github deps)
                   \<and> getRiskLevel (map_option overall (health (analyseAll w github deps ! i)))
                       = RiskLevel.critical})
   \<and> healthy (summarise (analyseAll w github deps))
       + warning (summarise (analyseAll w github deps))
       + critical (summarise (analyseAll w github deps))
       + failed (summarise (analyseAll w github deps)) = length deps"
proof -
  have counts:
    "failed (summarise as) = card {i. i < length as \<and> error (as ! i) \<noteq> None}"
    "healthy (summarise as) =
       card {i. i < length as
              \<and> getRiskLevel (map_option overall (health (as ! i))) = RiskLevel.healthy}"
    "warning (summarise as) =
       card {i. i < length as
              \<and> getRiskLevel (map_option overall (health (as ! i))) = RiskLevel.warning}"
    "critical (summarise as) =
       card {i. i < length as
              \<and> getRiskLevel (map_option overall (health (as ! i))) = RiskLevel.critical}"
    by (simp_all add: summarise_def riskOf_def length_filter_conv_card)
  have thrown: "i < length deps \<and> fetchMetadata w i (deps ! i) = Inl msg \<longrightarrow>
        health (analyseAll w github deps ! i) = None
        \<and> error (analyseAll w github deps ! i) = Some msg
        \<and> i \<in> {i. i < length (analyseAll w github deps)
                   \<and> error (analyseAll w github deps ! i) \<noteq> None}
        \<and> i \<notin> {i. i < length (analyseAll w github deps)
                   \<and> getRiskLevel (map_option overall (health (analyseAll w github deps ! i)))
                       = RiskLevel.healthy}
        \<and> i \<notin> {i. i < length (analyseAll w github deps)
                   \<and> getRiskLevel (map_option overall (health (analyseAll w github deps ! i)))
                       = RiskLevel.warning}
        \<and> i \<notin> {i. i < length (analyseAll w github deps)
                   \<and> getRiskLevel (map_option overall (health (analyseAll w github deps ! i)))
                       = RiskLevel.critical}"
    by (auto simp: analyseAll_nth analyseDependency_thrown)
  have "healthy (summarise (analyseAll w github deps))
       + warning (summarise (analyseAll w github deps))
       + critical (summarise (analyseAll w github deps))
       + failed (summarise (analyseAll w github deps))
       = total (summarise (analyseAll w github deps))"
    by (rule tallies_partition) (auto dest: analyseAll_set)
  then have part: "healthy (summarise (analyseAll w github deps))
       + warning (summarise (analyseAll w github deps))
       + critical (summarise (analyseAll w github deps))
       + failed (summarise (analyseAll w github deps)) = length deps"
    by (simp add: summarise_def)
  from counts thrown part show ?thesis by (intro conjI)
qed


lemma example_overall:
  "overall (calculateHealthScore 86400000
     (exampleMetadata (Some (Date 0)) [alice, bob] (Some ''MIT'')) None) = 91"
proof -
  have "FreshnessScore.score (calculateFreshnessScore 86400000
       (exampleMetadata (Some (Date 0)) [alice, bob] (Some ''MIT'')) None) = 100"
    by (simp add: calculateFreshnessScore_def resolveLastUpdate_def exampleMetadata_def
        freshnessThresholds_def archived_def MS_PER_DAY_def)
  moreover have "MaintainerScore.score (calculateMaintainerScore
       (exampleMetadata (Some (Date 0)) [alice, bob] (Some ''MIT'')) None) = 70"
    by (simp add: calculateMaintainerScore_def resolveCount_def exampleMetadata_def)
  moreover have "LicenseScore.score (calculateLicenseScore
       (exampleMetadata (Some (Date 0)) [alice, bob] (Some ''MIT''))) = 100"
    by (simp add: calculateLicenseScore_def exampleMetadata_def normalizeLicense_MIT
        matchesAny_MIT)
  ultimately show ?thesis
    by (simp add: overall_eq)
qed

lemma example_analyses:
  "analyseAll exampleWorld True [exampleDependency ''left-pad'', exampleDependency ''ghost''] =
     [\<lparr> dependency = exampleDependency ''left-pad'',
        metadata = Some (exampleMetadata (Some (Date 0)) [alice, bob] (Some ''MIT'')),
        health = Some (calculateHealthScore 86400000
           (exampleMetadata (Some (Date 0)) [alice, bob] (Some ''MIT'')) None),
        error = None \<rparr>,
      \<lparr> dependency = exampleDependency ''ghost'', metadata = None, health = None,
        error = Some ''Package not found: ghost'' \<rparr>]"
  by (simp add: analyseAll_def analyseDependency_def fetchMetadata_def fetchHealth_def
      exampleWorld_def exampleDependency_def exampleMetadata_def)

theorem scan_summary_witness:
  "(1::nat) < length [exampleDependency ''left-pad'', exampleDependency ''ghost'']
   \<and> fetchMetadata exampleWorld 1
        ([exampleDependency ''left-pad'', exampleDependency ''ghost''] ! 1)
       = Inl ''Package not found: ghost''
   \<and> health (analyseAll exampleWorld True
        [exampleDependency ''left-pad'', exampleDependency ''ghost''] ! 1) = None
   \<and> error (analyseAll exampleWorld True
        [exampleDependency ''left-pad'', exampleDependency ''ghost''] ! 1)
       = Some ''Package not found: ghost''
   \<and> summarise (analyseAll exampleWorld True
        [exampleDependency ''left-pad'', exampleDependency ''ghost''])
       = \<lparr> total = 2, healthy = 1, warning = 0, critical = 0, failed = 1 \<rparr>"
proof -
  have thrown: "(1::nat) < length [exampleDependency ''left-pad'', exampleDependency ''ghost'']
     \<and> fetchMetadata exampleWorld 1
        ([exampleDependency ''left-pad'', exampleDependency ''ghost''] ! 1)
       = Inl ''Package not found: ghost''"
    by (simp add: fetchMetadata_def exampleWorld_def exampleDependency_def)
  from thrown scan_summary [of
      "analyseAll exampleWorld True [exampleDependency ''left-pad'', exampleDependency ''ghost'']"
      1 "[exampleDependency ''left-pad'', exampleDependency ''ghost'']" exampleWorld
      "''Package not found: ghost''" True]
  have absent: "health (analyseAll exampleWorld True
        [exampleDependency ''left-pad'', exampleDependency ''ghost''] ! 1) = None
     \<and> error (analyseAll exampleWorld True
        [exampleDependency ''left-pad'', exampleDependency ''ghost''] ! 1)
       = Some ''Package not found: ghost''"
    by blast
  have "summarise (analyseAll exampleWorld True
        [exampleDependency ''left-pad'', exampleDependency ''ghost''])
       = \<lparr> total = 2, healthy = 1, warning = 0, critical = 0, failed = 1 \<rparr>"
    unfolding example_analyses
    by (simp add: summarise_def riskOf_def example_overall)
  with thrown absent show ?thesis by blast
qed

end
